theory Spec2Isabelle
  imports Main
begin

section \<open>JavaScript values\<close>

text \<open>
  The values a client can put into a request body or a socket message. Numbers are kept as
  integers: the program only ever tests a number for truthiness or compares it with
  \<open>===\<close>, and JSON has no NaN. An object is its list of fields.
\<close>

datatype js_value =
    JUndefined
  | JNull
  | JBool bool
  | JNumber int
  | JString string
  | JArray "js_value list"
  | JObject "(string \<times> js_value) list"

text \<open>What \<open>if (v)\<close> and \<open>!v\<close> test.\<close>

fun truthy :: "js_value \<Rightarrow> bool" where
  "truthy JUndefined = False"
| "truthy JNull = False"
| "truthy (JBool b) = b"
| "truthy (JNumber n) = (n \<noteq> 0)"
| "truthy (JString s) = (s \<noteq> [])"
| "truthy (JArray xs) = True"
| "truthy (JObject fs) = True"

text \<open>\<open>typeof v === 'object'\<close>: true of null, arrays and objects.\<close>

fun typeof_object :: "js_value \<Rightarrow> bool" where
  "typeof_object JNull = True"
| "typeof_object (JArray xs) = True"
| "typeof_object (JObject fs) = True"
| "typeof_object v = False"

text \<open>
  Property access \<open>v.k\<close> for the property names the program reads (\<open>_id\<close>, \<open>user\<close>,
  \<open>token\<close>, \<open>id\<close>), on a value that is neither null nor undefined: a field of an object
  (which lists each of its names once), and undefined on anything else.
\<close>

fun get_prop :: "js_value \<Rightarrow> string \<Rightarrow> js_value" where
  "get_prop (JObject fs) k = (case map_of fs k of Some v \<Rightarrow> v | None \<Rightarrow> JUndefined)"
| "get_prop v k = JUndefined"

text \<open>\<open>s.replace(pat, rep)\<close> with a string pattern: the first occurrence only.\<close>

fun replace_first :: "string \<Rightarrow> string \<Rightarrow> string \<Rightarrow> string" where
  "replace_first pat rep [] = (if pat = [] then rep else [])"
| "replace_first pat rep (c # cs) =
     (if take (length pat) (c # cs) = pat then rep @ drop (length pat) (c # cs)
      else c # replace_first pat rep cs)"

text \<open>A call that either returns a value or throws.\<close>

datatype 'a outcome = Throws | Returns 'a

section \<open>Push notifications (server.js, lines 63-64 and 190-236)\<close>

text \<open>
  \<open>let pushSubscriptions = []\<close> holds entries \<open>{ userId, subscription }\<close>. The
  subscription is the request body object of the subscribe call. The program never looks
  into it: it hands it to the push transport and compares it with \<open>!==\<close>, which on objects
  is identity. So a subscription is modelled by the address of its object.
\<close>

type_synonym obj_ref = nat

record registration =
  userId :: string
  subscription :: obj_ref

text \<open>
  The registry together with the number of request-body objects allocated so far: every
  subscribe request arrives with a freshly parsed body object.
\<close>

record push_state =
  pushSubscriptions :: "registration list"
  allocated :: nat

datatype response = Response nat string string

definition empty_push_state :: push_state where
  "empty_push_state = \<lparr>pushSubscriptions = [], allocated = 0\<rparr>"

text \<open>\<open>POST /api/push/subscribe\<close> (lines 191-202), for the authenticated user \<open>uid\<close>.\<close>

definition push_subscribe :: "string \<Rightarrow> push_state \<Rightarrow> response \<times> push_state" where
  "push_subscribe uid st =
     (Response 201 ''message'' ''Subscription saved'',
      \<lparr>pushSubscriptions =
         pushSubscriptions st @ [\<lparr>userId = uid, subscription = allocated st\<rparr>],
       allocated = Suc (allocated st)\<rparr>)"

text \<open>
  The push transport (\<open>webPush.sendNotification\<close>, an external library) answers each call with
  a promise that is fulfilled or rejected. The kinds of rejection are those the transport's
  interface distinguishes; the program's \<open>catch\<close> receives them all alike.
\<close>

datatype push_error = PermanentFailure | TransientFailure

datatype delivery = Delivered | Rejected push_error

text \<open>The payload \<open>JSON.stringify({ title, body, url })\<close>.\<close>

record notification =
  title :: js_value
  body :: js_value
  url :: js_value

text \<open>
  Lines 210-212: \<open>userId ? pushSubscriptions.filter(sub => sub.userId === userId)
  : pushSubscriptions\<close>. The stored \<open>userId\<close> is a string, so \<open>===\<close> holds only for the
  same string.
\<close>

definition targetSubscriptions :: "js_value \<Rightarrow> registration list \<Rightarrow> registration list" where
  "targetSubscriptions uid subs =
     (if truthy uid then filter (\<lambda>sub. JString (userId sub) = uid) subs else subs)"

text \<open>
  Lines 219-220: \<open>targetSubscriptions.map(({ subscription }) =>
  webPush.sendNotification(subscription, payload) ...)\<close>. The call is made for each target in
  turn; \<open>transport i\<close> is how the promise of the \<open>i\<close>-th call settles. The result pairs every
  subscription handed to the transport with that outcome.
\<close>

fun fan_out :: "(nat \<Rightarrow> delivery) \<Rightarrow> nat \<Rightarrow> registration list \<Rightarrow> (obj_ref \<times> delivery) list" where
  "fan_out transport i [] = []"
| "fan_out transport i (t # ts) = (subscription t, transport i) # fan_out transport (Suc i) ts"

text \<open>
  Lines 223-225, the body of the \<open>catch\<close>:
  \<open>pushSubscriptions = pushSubscriptions.filter(sub => sub.subscription !== subscription)\<close>.
\<close>

definition remove_subscription :: "obj_ref \<Rightarrow> registration list \<Rightarrow> registration list" where
  "remove_subscription s subs = filter (\<lambda>sub. subscription sub \<noteq> s) subs"

text \<open>
  The promises settle one after another; each rejected one runs the \<open>catch\<close> on the registry
  as it then is, whatever the error.
\<close>

fun settle :: "(obj_ref \<times> delivery) list \<Rightarrow> registration list \<Rightarrow> registration list" where
  "settle [] subs = subs"
| "settle ((s, Delivered) # ds) subs = settle ds subs"
| "settle ((s, Rejected e) # ds) subs = settle ds (remove_subscription s subs)"

text \<open>
  What one \<open>POST /api/push/send\<close> does (lines 204-236), run on its own: the response, the
  calls made to the transport (the subscription and the payload of each), and the registry
  afterwards. All calls are made before any promise settles. The outer \<open>catch\<close> of line 232
  and its answer 500 are not reached: \<open>sendNotification\<close> answers with a promise also when
  it fails at once, and every rejection is caught by the \<open>catch\<close> of its own delivery.
\<close>

record send_result =
  sent_response :: response
  attempts :: "(obj_ref \<times> notification) list"
  registry :: "registration list"

definition push_send ::
  "(nat \<Rightarrow> delivery) \<Rightarrow> notification \<Rightarrow> js_value \<Rightarrow> registration list \<Rightarrow> send_result" where
  "push_send transport payload uid subs =
     (let targets = targetSubscriptions uid subs
      in if length targets = 0
         then \<lparr>sent_response = Response 404 ''error'' ''No subscriptions found'',
               attempts = [], registry = subs\<rparr>
         else let settled = fan_out transport 0 targets
              in \<lparr>sent_response = Response 200 ''message'' ''Notifications sent'',
                  attempts = map (\<lambda>(s, d). (s, payload)) settled,
                  registry = settle settled subs\<rparr>)"

text \<open>The subscriptions whose delivery was rejected, in the order of the calls.\<close>

definition rejected :: "(obj_ref \<times> delivery) list \<Rightarrow> obj_ref list" where
  "rejected ds = map fst (filter (\<lambda>(s, d). d \<noteq> Delivered) ds)"

text \<open>
  The registries that subscribe requests can build: no two entries hold the same object, and
  every object held has been allocated.
\<close>

definition push_wf :: "push_state \<Rightarrow> bool" where
  "push_wf st =
     (distinct (map subscription (pushSubscriptions st)) \<and>
      (\<forall>r \<in> set (pushSubscriptions st). subscription r < allocated st))"

text \<open>
  A registry of three devices, two of user \<open>u1\<close> and one of user \<open>u2\<close>; a transport that
  delivers the first call, fails the second for a transient reason and rejects the third
  as permanently invalid; and a registry in which two entries hold one and the same object.
\<close>

definition example_registry :: "registration list" where
  "example_registry =
     [\<lparr>userId = ''u1'', subscription = 0\<rparr>,
      \<lparr>userId = ''u1'', subscription = 1\<rparr>,
      \<lparr>userId = ''u2'', subscription = 2\<rparr>]"

definition example_transport :: "nat \<Rightarrow> delivery" where
  "example_transport i =
     (if i = 1 then Rejected TransientFailure
      else if i = 2 then Rejected PermanentFailure
      else Delivered)"

definition example_payload :: notification where
  "example_payload =
     \<lparr>title = JString ''Shipped'', body = JString ''Your order shipped'',
      url = JString ''/orders.html''\<rparr>"

definition shared_registry :: "registration list" where
  "shared_registry =
     [\<lparr>userId = ''u1'', subscription = 7\<rparr>,
      \<lparr>userId = ''u2'', subscription = 7\<rparr>,
      \<lparr>userId = ''u1'', subscription = 8\<rparr>]"

section \<open>Real-time sessions (server.js, lines 94-174)\<close>

text \<open>
  The collaborators of the socket handlers, none of them code of this program:
  \<open>jsonwebtoken.verify\<close> (returns the decoded payload or throws), \<open>User.findById\<close>
  (a user document, null, or a database error), \<open>Order.findById(...).populate('user')\<close>
  (an order document, null, or a database error) and the string conversion of a template
  literal for a value that is not a string.
\<close>

record user =
  user_id :: string
  isAdmin :: bool

record env =
  jwt_verify :: "string \<Rightarrow> js_value outcome"
  User_findById :: "js_value \<Rightarrow> user option outcome"
  Order_findById :: "js_value \<Rightarrow> js_value outcome"
  to_string :: "js_value \<Rightarrow> string"

text \<open>A value inside a template literal: a string is itself, any other value is converted
  by the runtime.\<close>

fun template_string :: "env \<Rightarrow> js_value \<Rightarrow> string" where
  "template_string env (JString s) = s"
| "template_string env v = to_string env v"

text \<open>\<open>v.k\<close> on any value: a TypeError on null and undefined.\<close>

fun read_prop :: "js_value \<Rightarrow> string \<Rightarrow> js_value outcome" where
  "read_prop JUndefined k = Throws"
| "read_prop JNull k = Throws"
| "read_prop v k = Returns (get_prop v k)"

text \<open>
  A socket as the program sees it: its id, whether it is connected, and the rooms the
  program has put it in. \<open>socket.join(room)\<close> adds a room; \<open>socket.disconnect()\<close> closes the
  connection and leaves every room. (The private room that the socket library keeps for
  each socket under the socket's own id is not tracked: the program never emits to it.)
\<close>

record socket =
  sock_id :: string
  connected :: bool
  rooms :: "string set"

definition new_socket :: "string \<Rightarrow> socket" where
  "new_socket sid = \<lparr>sock_id = sid, connected = True, rooms = {}\<rparr>"

definition socket_join :: "string \<Rightarrow> socket \<Rightarrow> socket" where
  "socket_join room s = s\<lparr>rooms := insert room (rooms s)\<rparr>"

definition socket_disconnect :: "socket \<Rightarrow> socket" where
  "socket_disconnect s = s\<lparr>connected := False, rooms := {}\<rparr>"

text \<open>
  The first lines of both \<open>try\<close> blocks (100-102 and 118-120):
  \<open>jwt.verify(token.replace('Bearer ', ''), secret)\<close>, then \<open>User.findById(decoded.id)\<close>.
  \<open>token.replace\<close> is a TypeError unless the token is a string.
\<close>

definition authenticate :: "env \<Rightarrow> js_value \<Rightarrow> user option outcome" where
  "authenticate env token =
     (case token of
        JString t \<Rightarrow>
          (case jwt_verify env (replace_first ''Bearer '' [] t) of
             Throws \<Rightarrow> Throws
           | Returns decoded \<Rightarrow>
               (case read_prop decoded ''id'' of
                  Throws \<Rightarrow> Throws
                | Returns i \<Rightarrow> User_findById env i))
      | _ \<Rightarrow> Throws)"

text \<open>\<open>socket.on('joinAdmin', async (token) => ...)\<close>, lines 98-114.\<close>

definition joinAdmin :: "env \<Rightarrow> js_value \<Rightarrow> socket \<Rightarrow> socket" where
  "joinAdmin env token s =
     (case authenticate env token of
        Throws \<Rightarrow> socket_disconnect s
      | Returns None \<Rightarrow> socket_disconnect s
      | Returns (Some u) \<Rightarrow>
          if isAdmin u then socket_join ''adminRoom'' s else socket_disconnect s)"

text \<open>
  \<open>socket.on('joinUser', async ({ token }) => ...)\<close>, lines 116-132. The parameter is
  destructured before the \<open>try\<close> is entered: on null or undefined that is a TypeError which
  nothing catches, and the handler ends without touching the socket.
\<close>

definition joinUser :: "env \<Rightarrow> js_value \<Rightarrow> socket \<Rightarrow> socket outcome" where
  "joinUser env arg s =
     (case read_prop arg ''token'' of
        Throws \<Rightarrow> Throws
      | Returns token \<Rightarrow>
          Returns
            (case authenticate env token of
               Throws \<Rightarrow> socket_disconnect s
             | Returns None \<Rightarrow> socket_disconnect s
             | Returns (Some u) \<Rightarrow> socket_join (''user_'' @ user_id u) s))"

text \<open>The conditions under which the two handlers join: the \<open>if\<close> of lines 103 and 121.\<close>

definition admin_verified :: "env \<Rightarrow> js_value \<Rightarrow> bool" where
  "admin_verified env token =
     (case authenticate env token of Returns (Some u) \<Rightarrow> isAdmin u | _ \<Rightarrow> False)"

definition user_verified :: "env \<Rightarrow> js_value \<Rightarrow> bool" where
  "user_verified env token =
     (case authenticate env token of Returns (Some u) \<Rightarrow> True | _ \<Rightarrow> False)"

text \<open>
  \<open>io.to(room).emit(event, payload)\<close>: the event goes to the sockets that are in the room
  when it is emitted.
\<close>

record emission =
  em_room :: string
  em_event :: string
  em_payload :: "js_value option"
  em_receivers :: "string list"

definition io_to_emit :: "socket list \<Rightarrow> string \<Rightarrow> string \<Rightarrow> js_value option \<Rightarrow> emission" where
  "io_to_emit socks room ev pl =
     \<lparr>em_room = room, em_event = ev, em_payload = pl,
      em_receivers = map sock_id (filter (\<lambda>s. room \<in> rooms s) socks)\<rparr>"

text \<open>Lines 134-140.\<close>

definition categoryUpdate :: "socket list \<Rightarrow> emission list" where
  "categoryUpdate socks = [io_to_emit socks ''adminRoom'' ''categoryUpdate'' None]"

definition productUpdate :: "socket list \<Rightarrow> emission list" where
  "productUpdate socks = [io_to_emit socks ''adminRoom'' ''productUpdate'' None]"

text \<open>Line 144: \<open>!order || typeof order !== 'object' || !order._id\<close>.\<close>

definition invalid_order :: "js_value \<Rightarrow> bool" where
  "invalid_order order =
     (\<not> truthy order \<or> \<not> typeof_object order \<or> \<not> truthy (get_prop order ''_id''))"

text \<open>Lines 150 and 161: \<open>o.user && o.user._id\<close>.\<close>

definition has_user_id :: "js_value \<Rightarrow> bool" where
  "has_user_id order =
     (truthy (get_prop order ''user'') \<and> truthy (get_prop (get_prop order ''user'') ''_id''))"

text \<open>
  Lines 149-157. \<open>Returns None\<close> is the early \<open>return\<close> of line 155, \<open>Throws\<close> a database error,
  which the \<open>catch\<close> of line 166 logs.
\<close>

definition populatedOrder :: "env \<Rightarrow> js_value \<Rightarrow> js_value option outcome" where
  "populatedOrder env order =
     (if \<not> has_user_id order
      then (case Order_findById env (get_prop order ''_id'') of
              Throws \<Rightarrow> Throws
            | Returns found \<Rightarrow> if \<not> truthy found then Returns None else Returns (Some found))
      else Returns (Some order))"

text \<open>\<open>socket.on('orderStatusUpdate', async (order) => ...)\<close>, lines 142-169.\<close>

definition orderStatusUpdate :: "env \<Rightarrow> socket list \<Rightarrow> js_value \<Rightarrow> emission list" where
  "orderStatusUpdate env socks order =
     (if invalid_order order then []
      else case populatedOrder env order of
             Throws \<Rightarrow> []
           | Returns None \<Rightarrow> []
           | Returns (Some p) \<Rightarrow>
               io_to_emit socks ''adminRoom'' ''orderStatusUpdate'' (Some p) #
               (if has_user_id p
                then [io_to_emit socks
                        (''user_'' @ template_string env (get_prop (get_prop p ''user'') ''_id''))
                        ''orderStatusUpdate'' (Some p)]
                else []))"

text \<open>
  The messages a client can send, and what they do to the sender's own socket; each handler
  runs from its first line to its last before the next message is looked at. A socket
  that is no longer connected is sent nothing more. An uncaught TypeError in \<open>joinUser\<close>
  rejects the handler's promise, which nobody handles; the handler itself has done nothing
  to the socket by then, and \<open>socket_step\<close> leaves the socket as it was. That is the
  program under a runtime that survives an unhandled rejection. Node from version 15 on
  by default ends the process instead, and every session with it; the program does
  nothing to prevent that.
\<close>

datatype client_event =
    JoinAdmin js_value
  | JoinUser js_value
  | CategoryUpdate
  | ProductUpdate
  | OrderStatusUpdate js_value
  | Disconnect

fun socket_step :: "env \<Rightarrow> socket \<Rightarrow> client_event \<Rightarrow> socket" where
  "socket_step env s (JoinAdmin token) =
     (if connected s then joinAdmin env token s else s)"
| "socket_step env s (JoinUser arg) =
     (if connected s
      then (case joinUser env arg s of Throws \<Rightarrow> s | Returns s' \<Rightarrow> s')
      else s)"
| "socket_step env s Disconnect = (if connected s then socket_disconnect s else s)"
| "socket_step env s ev = s"

text \<open>What a message makes the server emit.\<close>

fun emissions :: "env \<Rightarrow> socket list \<Rightarrow> client_event \<Rightarrow> emission list" where
  "emissions env socks CategoryUpdate = categoryUpdate socks"
| "emissions env socks ProductUpdate = productUpdate socks"
| "emissions env socks (OrderStatusUpdate order) = orderStatusUpdate env socks order"
| "emissions env socks ev = []"

text \<open>
  The server: its sockets and everything emitted so far. \<open>on_connection\<close> is line 95;
  \<open>on_event sid ev\<close> is the arrival of message \<open>ev\<close> on the socket with id \<open>sid\<close>, which runs
  that socket's handler if the socket is connected.
\<close>

record server =
  io_sockets :: "socket list"
  io_outbox :: "emission list"

definition on_connection :: "string \<Rightarrow> server \<Rightarrow> server" where
  "on_connection sid srv = srv\<lparr>io_sockets := io_sockets srv @ [new_socket sid]\<rparr>"

definition is_connected :: "server \<Rightarrow> string \<Rightarrow> bool" where
  "is_connected srv sid = (\<exists>s \<in> set (io_sockets srv). sock_id s = sid \<and> connected s)"

definition on_event :: "env \<Rightarrow> string \<Rightarrow> client_event \<Rightarrow> server \<Rightarrow> server" where
  "on_event env sid ev srv =
     (if is_connected srv sid
      then \<lparr>io_sockets =
              map (\<lambda>s. if sock_id s = sid then socket_step env s ev else s) (io_sockets srv),
            io_outbox = io_outbox srv @ emissions env (io_sockets srv) ev\<rparr>
      else srv)"

text \<open>The rooms of the \<open>user_<id>\<close> family.\<close>

definition is_user_room :: "string \<Rightarrow> bool" where
  "is_user_room room = (take 5 room = ''user_'')"

definition at_most_one_user_room :: "socket \<Rightarrow> bool" where
  "at_most_one_user_room s =
     (\<forall>r1 \<in> rooms s. \<forall>r2 \<in> rooms s. is_user_room r1 \<and> is_user_room r2 \<longrightarrow> r1 = r2)"

text \<open>
  An environment to run the handlers in: token \<open>ta\<close> belongs to the admin \<open>a\<close>, tokens \<open>tb\<close>
  and \<open>tc\<close> to the customers \<open>b\<close> and \<open>c\<close>, token \<open>tz\<close> to a user that no longer exists;
  every other token is rejected. The stored orders are \<open>o2\<close>, of customer \<open>b\<close>, and \<open>o4\<close>,
  whose customer no longer exists; looking up \<open>o3\<close> fails with a database error.
\<close>

definition stored_o2 :: js_value where
  "stored_o2 =
     JObject [(''_id'', JString ''o2''), (''status'', JString ''shipped''),
              (''user'', JObject [(''_id'', JString ''b'')])]"

definition stored_o4 :: js_value where
  "stored_o4 = JObject [(''_id'', JString ''o4''), (''user'', JNull)]"

definition example_env :: env where
  "example_env =
     \<lparr>jwt_verify = (\<lambda>t.
         if t = ''ta'' then Returns (JObject [(''id'', JString ''a'')])
         else if t = ''tb'' then Returns (JObject [(''id'', JString ''b'')])
         else if t = ''tc'' then Returns (JObject [(''id'', JString ''c'')])
         else if t = ''tz'' then Returns (JObject [(''id'', JString ''z'')])
         else Throws),
      User_findById = (\<lambda>i.
         if i = JString ''a'' then Returns (Some \<lparr>user_id = ''a'', isAdmin = True\<rparr>)
         else if i = JString ''b'' then Returns (Some \<lparr>user_id = ''b'', isAdmin = False\<rparr>)
         else if i = JString ''c'' then Returns (Some \<lparr>user_id = ''c'', isAdmin = False\<rparr>)
         else Returns None),
      Order_findById = (\<lambda>i.
         if i = JString ''o2'' then Returns stored_o2
         else if i = JString ''o4'' then Returns stored_o4
         else if i = JString ''o3'' then Throws
         else Returns JNull),
      to_string = (\<lambda>v. ''[object Object]'')\<rparr>"

text \<open>Messages and a server state to run the handlers on.\<close>

definition admin_token :: js_value where
  "admin_token = JString ''Bearer ta''"

definition b_credential :: js_value where
  "b_credential = JObject [(''token'', JString ''Bearer tb'')]"

definition c_credential :: js_value where
  "c_credential = JObject [(''token'', JString ''Bearer tc'')]"

definition example_sockets :: "socket list" where
  "example_sockets =
     [\<lparr>sock_id = ''s1'', connected = True, rooms = {''adminRoom''}\<rparr>,
      \<lparr>sock_id = ''s2'', connected = True, rooms = {''user_b''}\<rparr>,
      \<lparr>sock_id = ''s3'', connected = True, rooms = {''user_u8''}\<rparr>,
      \<lparr>sock_id = ''s4'', connected = True, rooms = {}\<rparr>,
      \<lparr>sock_id = ''s5'', connected = True, rooms = {''user_u9'', ''adminRoom''}\<rparr>]"

definition example_server :: server where
  "example_server = \<lparr>io_sockets = example_sockets, io_outbox = []\<rparr>"

definition order_u9 :: js_value where
  "order_u9 = JObject [(''_id'', JString ''o1''), (''user'', JObject [(''_id'', JString ''u9'')])]"

text \<open>The order \<open>o2\<close> as a client sends it, its user given by id only.\<close>

definition sent_o2 :: js_value where
  "sent_o2 = JObject [(''_id'', JString ''o2''), (''user'', JString ''b'')]"

section \<open>Properties of the push notifier\<close>

lemma fan_out_length: "length (fan_out transport i ts) = length ts"
  by (induction ts arbitrary: i) simp_all

lemma fan_out_fst: "map fst (fan_out transport i ts) = map subscription ts"
  by (induction ts arbitrary: i) simp_all

lemma fan_out_nth:
  "k < length ts \<Longrightarrow> fan_out transport i ts ! k = (subscription (ts ! k), transport (i + k))"
proof (induction ts arbitrary: i k)
  case Nil
  then show ?case by simp
next
  case (Cons t ts)
  show ?case
  proof (cases k)
    case 0
    then show ?thesis by simp
  next
    case (Suc j)
    with Cons.prems have "j < length ts" by simp
    from Cons.IH [OF this, of "Suc i"] Suc show ?thesis by simp
  qed
qed

lemma settle_filter:
  "settle ds subs = filter (\<lambda>sub. subscription sub \<notin> set (rejected ds)) subs"
proof (induction ds subs rule: settle.induct)
  case (1 subs)
  show ?case by (simp add: rejected_def)
next
  case (2 s ds subs)
  then show ?case by (simp add: rejected_def)
next
  case (3 s e ds subs)
  have "settle ((s, Rejected e) # ds) subs = settle ds (remove_subscription s subs)"
    by simp
  also have "\<dots> = filter (\<lambda>sub. subscription sub \<notin> set (rejected ds))
                     (filter (\<lambda>sub. subscription sub \<noteq> s) subs)"
    using 3 by (simp add: remove_subscription_def)
  also have "\<dots> = filter (\<lambda>sub. subscription sub \<notin> set (rejected ((s, Rejected e) # ds))) subs"
    by (auto simp: rejected_def intro: filter_cong)
  finally show ?case .
qed

text \<open>The registry after the catches depends only on which subscriptions were rejected,
  not on the order in which the promises settled.\<close>

lemma settle_order: "set ds = set ds' \<Longrightarrow> settle ds subs = settle ds' subs"
  by (simp add: settle_filter rejected_def)

lemma rejected_fan_out:
  "s \<in> set (rejected (fan_out transport i ts)) \<longleftrightarrow>
     (\<exists>k < length ts. subscription (ts ! k) = s \<and> transport (i + k) \<noteq> Delivered)"
proof -
  have "s \<in> set (rejected (fan_out transport i ts)) \<longleftrightarrow>
        (\<exists>d. (s, d) \<in> set (fan_out transport i ts) \<and> d \<noteq> Delivered)"
    by (force simp: rejected_def)
  also have "\<dots> \<longleftrightarrow>
        (\<exists>k < length ts. fan_out transport i ts ! k = (s, transport (i + k))
           \<and> transport (i + k) \<noteq> Delivered)"
    by (auto simp: in_set_conv_nth fan_out_length fan_out_nth)
  also have "\<dots> \<longleftrightarrow>
        (\<exists>k < length ts. subscription (ts ! k) = s \<and> transport (i + k) \<noteq> Delivered)"
    by (auto simp: fan_out_nth)
  finally show ?thesis .
qed

lemma fan_out_attempts:
  "map (\<lambda>(s, d). (s, payload)) (fan_out transport i ts) = map (\<lambda>t. (subscription t, payload)) ts"
  by (induction ts arbitrary: i) simp_all

lemma push_send_registry:
  "registry (push_send transport payload uid subs) =
     filter (\<lambda>sub. subscription sub \<notin>
                    set (rejected (fan_out transport 0 (targetSubscriptions uid subs)))) subs"
  by (simp add: push_send_def Let_def settle_filter rejected_def)

lemma targetSubscriptions_subset: "set (targetSubscriptions uid subs) \<subseteq> set subs"
  by (simp add: targetSubscriptions_def)

lemma targetSubscriptions_distinct:
  "distinct (map subscription subs) \<Longrightarrow>
   distinct (map subscription (targetSubscriptions uid subs))"
  by (simp add: targetSubscriptions_def distinct_map_filter)

text \<open>Subscribe requests build registries without shared objects, and sending keeps them so.\<close>

lemma push_wf_empty: "push_wf empty_push_state"
  by (simp add: push_wf_def empty_push_state_def)

lemma push_wf_subscribe: "push_wf st \<Longrightarrow> push_wf (snd (push_subscribe uid st))"
  by (auto simp: push_wf_def push_subscribe_def)

lemma push_send_distinct:
  "distinct (map subscription subs) \<Longrightarrow>
   distinct (map subscription (registry (push_send transport payload uid subs)))"
  by (simp add: push_send_registry distinct_map_filter)

lemma push_wf_send:
  assumes "push_wf st"
  shows "push_wf (st\<lparr>pushSubscriptions :=
                      registry (push_send transport payload uid (pushSubscriptions st))\<rparr>)"
proof -
  have "set (registry (push_send transport payload uid (pushSubscriptions st)))
          \<subseteq> set (pushSubscriptions st)"
    by (simp add: push_send_registry)
  with assms push_send_distinct [of "pushSubscriptions st" transport payload uid]
  show ?thesis
    by (auto simp: push_wf_def)
qed

lemma example_targets_all: "targetSubscriptions JUndefined example_registry = example_registry"
  by (simp add: targetSubscriptions_def)

lemma example_registry_distinct: "distinct (map subscription example_registry)"
  by (simp add: example_registry_def)

text \<open>
  What the \<open>catch\<close> of line 220 does, which does not look at the error. A registration
  whose delivery is rejected, for whatever reason, is gone from the registry after the
  send; and in a registry without shared objects, the registration selected at position
  \<open>k\<close> is still there exactly when its delivery succeeded.
\<close>

lemma rejected_is_removed:
  assumes "k < length (targetSubscriptions uid subs)" and "transport k = Rejected e"
  shows "targetSubscriptions uid subs ! k \<notin> set (registry (push_send transport payload uid subs))"
proof -
  have "subscription (targetSubscriptions uid subs ! k)
          \<in> set (rejected (fan_out transport 0 (targetSubscriptions uid subs)))"
    using assms by (auto simp: rejected_fan_out)
  then show ?thesis
    by (simp add: push_send_registry)
qed

theorem removed_iff_rejected:
  assumes d: "distinct (map subscription subs)"
    and k: "k < length (targetSubscriptions uid subs)"
  shows "targetSubscriptions uid subs ! k \<in> set (registry (push_send transport payload uid subs))
           \<longleftrightarrow> transport k = Delivered"
proof -
  let ?ts = "targetSubscriptions uid subs"
  have mem: "?ts ! k \<in> set subs"
    using k targetSubscriptions_subset [of uid subs] nth_mem by blast
  have dts: "distinct (map subscription ?ts)"
    using d by (rule targetSubscriptions_distinct)
  have same: "j = k"
    if "j < length ?ts" and "subscription (?ts ! j) = subscription (?ts ! k)" for j
  proof -
    have "map subscription ?ts ! j = map subscription ?ts ! k"
      using that k by simp
    moreover have "j < length (map subscription ?ts)" "k < length (map subscription ?ts)"
      using that k by simp_all
    ultimately show ?thesis
      using dts nth_eq_iff_index_eq by blast
  qed
  have "?ts ! k \<in> set (registry (push_send transport payload uid subs)) \<longleftrightarrow>
        subscription (?ts ! k) \<notin> set (rejected (fan_out transport 0 ?ts))"
    using mem by (simp add: push_send_registry)
  also have "\<dots> \<longleftrightarrow>
        \<not> (\<exists>j < length ?ts. subscription (?ts ! j) = subscription (?ts ! k)
              \<and> transport j \<noteq> Delivered)"
    by (simp add: rejected_fan_out)
  also have "\<dots> \<longleftrightarrow> transport k = Delivered"
    using same k by blast
  finally show ?thesis .
qed

text \<open>
  On the example registry, sent to everybody: the first device is delivered to and stays,
  the second fails transiently and is gone, the third is permanently invalid and is gone.
\<close>

theorem removed_iff_rejected_witness:
  "distinct (map subscription example_registry)
   \<and> 2 < length (targetSubscriptions JUndefined example_registry)
   \<and> example_registry ! 0 \<in>
       set (registry (push_send example_transport example_payload JUndefined example_registry))
   \<and> example_registry ! 1 \<notin>
       set (registry (push_send example_transport example_payload JUndefined example_registry))
   \<and> example_registry ! 2 \<notin>
       set (registry (push_send example_transport example_payload JUndefined example_registry))"
proof -
  have d: "distinct (map subscription example_registry)"
    by (rule example_registry_distinct)
  have l: "2 < length (targetSubscriptions JUndefined example_registry)"
    by (simp add: example_targets_all) (simp add: example_registry_def)
  have l0: "0 < length (targetSubscriptions JUndefined example_registry)"
    and l1: "1 < length (targetSubscriptions JUndefined example_registry)"
    using l by linarith+
  show ?thesis
    using d l
      removed_iff_rejected [OF d l0, of example_transport example_payload]
      removed_iff_rejected [OF d l1, of example_transport example_payload]
      removed_iff_rejected [OF d l, of example_transport example_payload]
    by (simp add: example_targets_all example_transport_def)
qed

text \<open>
  Claim C1. A registration is to leave the registry exactly when the transport rejects its
  delivery as permanently invalid, and to stay after a delivery that fails with a transient
  error. The program departs from this on a transient error: line 222 announces the removal
  of an invalid subscription, but lines 223-225 run for every rejection. With one
  registration in the registry and a delivery that fails transiently, the registration is
  no longer in the registry after the send.
\<close>

theorem transient_failure_removes:
  "\<lparr>userId = ''u1'', subscription = 0\<rparr> \<notin>
     set (registry (push_send (\<lambda>i. Rejected TransientFailure) example_payload JUndefined
            [\<lparr>userId = ''u1'', subscription = 0\<rparr>]))"
  by (simp add: push_send_def targetSubscriptions_def remove_subscription_def)

text \<open>
  Claim C5. When the selected set is empty (the entries of \<open>userId\<close> when the request names
  one, all entries otherwise), the send answers 404 "No subscriptions found", calls the
  transport not once, and leaves the registry as it was.
\<close>

theorem no_targets_not_found:
  assumes "targetSubscriptions uid subs = []"
  shows "push_send transport payload uid subs =
           \<lparr>sent_response = Response 404 ''error'' ''No subscriptions found'',
            attempts = [], registry = subs\<rparr>"
  using assms by (simp add: push_send_def)

theorem no_targets_not_found_witness:
  "targetSubscriptions (JString ''u3'') example_registry = []
   \<and> push_send example_transport example_payload (JString ''u3'') example_registry =
       \<lparr>sent_response = Response 404 ''error'' ''No subscriptions found'',
        attempts = [], registry = example_registry\<rparr>"
proof -
  have e: "targetSubscriptions (JString ''u3'') example_registry = []"
    by (simp add: targetSubscriptions_def example_registry_def)
  from e no_targets_not_found [OF e, of example_transport example_payload]
  show ?thesis by simp
qed

text \<open>
  Claim C6. When the selected set is not empty, the transport is called once for every
  selected registration, with the payload, whatever the outcomes of the other calls, and
  the send answers 200 "Notifications sent" however many of the deliveries failed.
\<close>

theorem all_targets_attempted:
  assumes "targetSubscriptions uid subs \<noteq> []"
  shows "attempts (push_send transport payload uid subs) =
           map (\<lambda>t. (subscription t, payload)) (targetSubscriptions uid subs)
       \<and> sent_response (push_send transport payload uid subs) =
           Response 200 ''message'' ''Notifications sent''"
  using assms by (simp add: push_send_def Let_def fan_out_attempts)

text \<open>With every delivery rejected, all three devices are still tried and the answer is 200.\<close>

theorem all_targets_attempted_witness:
  "targetSubscriptions JUndefined example_registry \<noteq> []
   \<and> attempts (push_send (\<lambda>i. Rejected PermanentFailure) example_payload JUndefined
        example_registry) = [(0, example_payload), (1, example_payload), (2, example_payload)]
   \<and> sent_response (push_send (\<lambda>i. Rejected PermanentFailure) example_payload JUndefined
        example_registry) = Response 200 ''message'' ''Notifications sent''"
proof -
  have n: "targetSubscriptions JUndefined example_registry \<noteq> []"
    by (simp add: example_targets_all) (simp add: example_registry_def)
  from n all_targets_attempted [OF n, of "\<lambda>i. Rejected PermanentFailure" example_payload]
  show ?thesis
    by (simp add: example_targets_all) (simp add: example_registry_def)
qed

text \<open>
  Claim C10. The removal goes by the identity of the subscription object. After a send, the
  registry is the registry before it, in the same order, without the entries whose
  subscription is the object of a rejected delivery: such an entry goes whatever its
  \<open>userId\<close>, and every entry holding another object stays as it is, other entries of the
  same user included.
\<close>

theorem removal_by_identity:
  "registry (push_send transport payload uid subs) =
     filter (\<lambda>sub. \<not> (\<exists>k < length (targetSubscriptions uid subs).
                        subscription (targetSubscriptions uid subs ! k) = subscription sub
                        \<and> transport k \<noteq> Delivered)) subs"
  by (simp add: push_send_registry rejected_fan_out)

text \<open>
  One object held by entries of two users: a send to user \<open>u1\<close> whose first delivery is
  rejected removes both entries that hold the object, and keeps the other entry of \<open>u1\<close>.
\<close>

theorem removal_by_identity_witness:
  "registry (push_send (\<lambda>i. if i = 0 then Rejected PermanentFailure else Delivered)
      example_payload (JString ''u1'') shared_registry) =
     [\<lparr>userId = ''u1'', subscription = 8\<rparr>]"
proof -
  have t: "targetSubscriptions (JString ''u1'') shared_registry =
             [\<lparr>userId = ''u1'', subscription = 7\<rparr>, \<lparr>userId = ''u1'', subscription = 8\<rparr>]"
    by (simp add: targetSubscriptions_def shared_registry_def)
  have two: "(\<exists>k<2. P k) \<longleftrightarrow> P 0 \<or> P (Suc 0)" for P :: "nat \<Rightarrow> bool"
    by (auto simp: less_Suc_eq numeral_2_eq_2)
  show ?thesis
    using removal_by_identity [of "\<lambda>i. if i = 0 then Rejected PermanentFailure else Delivered"
        example_payload "JString ''u1''" shared_registry]
    by (simp add: t two) (simp add: shared_registry_def)
qed

section \<open>Properties of the real-time sessions\<close>

lemma is_user_room_user: "is_user_room (''user_'' @ x)"
  by (simp add: is_user_room_def)

lemma not_is_user_room_admin: "\<not> is_user_room ''adminRoom''"
  by (simp add: is_user_room_def)

lemma read_prop_Returns: "read_prop v k = Returns x \<Longrightarrow> x = get_prop v k"
  by (cases v) simp_all

text \<open>The order test of line 144 passes exactly the objects with a truthy \<open>_id\<close>.\<close>

lemma invalid_order_iff:
  "invalid_order order \<longleftrightarrow> \<not> (\<exists>fs. order = JObject fs \<and> truthy (get_prop order ''_id''))"
  by (cases order) (simp_all add: invalid_order_def)

text \<open>A room a socket is in was either there before the message, or the message joined it.\<close>

lemma socket_step_rooms:
  assumes "r \<in> rooms (socket_step env s ev)"
  shows "r \<in> rooms s
      \<or> (\<exists>token u. ev = JoinAdmin token \<and> authenticate env token = Returns (Some u) \<and> isAdmin u
            \<and> r = ''adminRoom'')
      \<or> (\<exists>arg u. ev = JoinUser arg \<and> authenticate env (get_prop arg ''token'') = Returns (Some u)
            \<and> r = ''user_'' @ user_id u)"
proof (cases ev)
  case (JoinAdmin token)
  with assms show ?thesis
    by (auto simp: joinAdmin_def socket_join_def socket_disconnect_def
        split: if_splits outcome.splits option.splits)
next
  case (JoinUser arg)
  show ?thesis
  proof (cases "read_prop arg ''token''")
    case Throws
    with assms JoinUser show ?thesis by (simp add: joinUser_def split: if_splits)
  next
    case (Returns token)
    then have "token = get_prop arg ''token''" by (rule read_prop_Returns)
    with assms JoinUser Returns show ?thesis
      by (auto simp: joinUser_def socket_join_def socket_disconnect_def
          split: if_splits outcome.splits option.splits)
  qed
next
  case Disconnect
  with assms show ?thesis by (simp add: socket_disconnect_def split: if_splits)
qed (use assms in simp_all)

lemma run_rooms:
  assumes "r \<in> rooms (foldl (socket_step env) s evs)"
  shows "r \<in> rooms s
      \<or> (\<exists>token u. JoinAdmin token \<in> set evs \<and> authenticate env token = Returns (Some u)
            \<and> isAdmin u \<and> r = ''adminRoom'')
      \<or> (\<exists>arg u. JoinUser arg \<in> set evs
            \<and> authenticate env (get_prop arg ''token'') = Returns (Some u)
            \<and> r = ''user_'' @ user_id u)"
  using assms
proof (induction evs arbitrary: s)
  case Nil
  then show ?case by simp
next
  case (Cons ev evs)
  from Cons.prems have "r \<in> rooms (foldl (socket_step env) (socket_step env s ev) evs)"
    by simp
  from Cons.IH [OF this] show ?case
  proof (elim disjE)
    assume "r \<in> rooms (socket_step env s ev)"
    from socket_step_rooms [OF this] show ?thesis by auto
  qed auto
qed

text \<open>A socket that is no longer connected is in no room.\<close>

lemma socket_step_live:
  "connected s \<or> rooms s = {} \<Longrightarrow>
   connected (socket_step env s ev) \<or> rooms (socket_step env s ev) = {}"
  by (cases ev)
    (auto simp: joinAdmin_def joinUser_def socket_join_def socket_disconnect_def
      split: outcome.splits option.splits)

lemma run_live:
  "connected s \<or> rooms s = {} \<Longrightarrow>
   connected (foldl (socket_step env) s evs) \<or> rooms (foldl (socket_step env) s evs) = {}"
proof (induction evs arbitrary: s)
  case Nil
  then show ?case by simp
next
  case (Cons ev evs)
  from socket_step_live [OF Cons.prems] have "connected (socket_step env s ev) \<or> rooms (socket_step env s ev) = {}" .
  from Cons.IH [OF this] show ?case by simp
qed

lemma example_joins_rooms:
  "rooms (foldl (socket_step example_env) (new_socket ''s1'')
            [JoinUser b_credential, JoinAdmin admin_token]) = {''adminRoom'', ''user_b''}"
  by (simp add: new_socket_def joinUser_def joinAdmin_def authenticate_def example_env_def
      socket_join_def b_credential_def admin_token_def)

text \<open>
  Claim C2, as the program has it. The claim says that a session is in at most one
  \<open>user_<id>\<close> room, and in \<open>adminRoom\<close> only if its verified principal is an admin. The
  handlers never leave a room, so the first half fails; what holds for every sequence of
  messages on a new connection is: the session is in \<open>adminRoom\<close> only if one of its
  \<open>joinAdmin\<close> messages carried a credential that verified to a user with \<open>isAdmin\<close>, and it
  is in a room \<open>user_<id>\<close> only if one of its \<open>joinUser\<close> messages carried a credential
  that verified to the user with that id.
\<close>

theorem rooms_need_credentials:
  "(''adminRoom'' \<in> rooms (foldl (socket_step env) (new_socket sid) evs) \<longrightarrow>
      (\<exists>token u. JoinAdmin token \<in> set evs \<and> authenticate env token = Returns (Some u)
         \<and> isAdmin u))
   \<and> (\<forall>r \<in> rooms (foldl (socket_step env) (new_socket sid) evs). is_user_room r \<longrightarrow>
      (\<exists>arg u. JoinUser arg \<in> set evs
         \<and> authenticate env (get_prop arg ''token'') = Returns (Some u)
         \<and> r = ''user_'' @ user_id u))"
proof (intro conjI impI ballI)
  assume "''adminRoom'' \<in> rooms (foldl (socket_step env) (new_socket sid) evs)"
  from run_rooms [OF this]
  show "\<exists>token u. JoinAdmin token \<in> set evs \<and> authenticate env token = Returns (Some u)
          \<and> isAdmin u"
    by (auto simp: new_socket_def)
next
  fix r
  assume "r \<in> rooms (foldl (socket_step env) (new_socket sid) evs)" and "is_user_room r"
  with run_rooms [of r env "new_socket sid" evs]
  show "\<exists>arg u. JoinUser arg \<in> set evs
          \<and> authenticate env (get_prop arg ''token'') = Returns (Some u)
          \<and> r = ''user_'' @ user_id u"
    by (auto simp: new_socket_def is_user_room_def)
qed

text \<open>
  A session that joins as customer \<open>b\<close> and then as admin \<open>a\<close> is in both rooms, each backed
  by the credential it presented.
\<close>

theorem rooms_need_credentials_witness:
  "''adminRoom'' \<in> rooms (foldl (socket_step example_env) (new_socket ''s1'')
                            [JoinUser b_credential, JoinAdmin admin_token])
   \<and> (\<exists>token u. JoinAdmin token \<in> set [JoinUser b_credential, JoinAdmin admin_token]
         \<and> authenticate example_env token = Returns (Some u) \<and> isAdmin u)
   \<and> ''user_b'' \<in> rooms (foldl (socket_step example_env) (new_socket ''s1'')
                           [JoinUser b_credential, JoinAdmin admin_token])
   \<and> is_user_room ''user_b''
   \<and> (\<exists>arg u. JoinUser arg \<in> set [JoinUser b_credential, JoinAdmin admin_token]
         \<and> authenticate example_env (get_prop arg ''token'') = Returns (Some u)
         \<and> ''user_b'' = ''user_'' @ user_id u)"
proof -
  let ?evs = "[JoinUser b_credential, JoinAdmin admin_token]"
  let ?s = "foldl (socket_step example_env) (new_socket ''s1'') ?evs"
  have a: "''adminRoom'' \<in> rooms ?s" and b: "''user_b'' \<in> rooms ?s"
    unfolding example_joins_rooms by simp_all
  have u: "is_user_room ''user_b''"
    by (simp add: is_user_room_def)
  note inst = rooms_need_credentials [of example_env "''s1''" ?evs]
  from inst a have 1: "\<exists>token u. JoinAdmin token \<in> set ?evs
      \<and> authenticate example_env token = Returns (Some u) \<and> isAdmin u"
    by blast
  from inst b u have 2: "\<exists>arg u. JoinUser arg \<in> set ?evs
      \<and> authenticate example_env (get_prop arg ''token'') = Returns (Some u)
      \<and> ''user_b'' = ''user_'' @ user_id u"
    by blast
  from a b u 1 2 show ?thesis by blast
qed

text \<open>
  The claim C2 as it is written fails: after \<open>joinUser\<close> with the credential of customer
  \<open>b\<close> and \<open>joinUser\<close> with the credential of customer \<open>c\<close>, the session is in both
  \<open>user_b\<close> and \<open>user_c\<close>.
\<close>

theorem two_user_rooms:
  "\<not> at_most_one_user_room
       (foldl (socket_step example_env) (new_socket ''s1'')
          [JoinUser b_credential, JoinUser c_credential])"
  by (simp add: at_most_one_user_room_def is_user_room_def new_socket_def joinUser_def
      authenticate_def example_env_def socket_join_def b_credential_def c_credential_def)

text \<open>
  Inside the \<open>try\<close> of either handler every failure ends in \<open>socket.disconnect()\<close>: when
  the token is not a string or is malformed or expired (\<open>jwt.verify\<close> throws), when the
  lookup fails or finds no user, and, for \<open>joinAdmin\<close>, when the user is no admin, the
  socket is left disconnected and in no room, whatever rooms it was in before. For
  \<open>joinUser\<close> this needs an argument that can be destructured.
\<close>


theorem failed_verification_disconnects:
  "(\<not> admin_verified env token \<longrightarrow>
      connected (joinAdmin env token s) = False \<and> rooms (joinAdmin env token s) = {})
   \<and> (read_prop arg ''token'' = Returns tok \<and> \<not> user_verified env tok \<longrightarrow>
      (\<exists>s'. joinUser env arg s = Returns s' \<and> connected s' = False \<and> rooms s' = {}))"
proof -
  have admin: "joinAdmin env token s = socket_disconnect s" if "\<not> admin_verified env token"
    using that
    by (simp add: admin_verified_def joinAdmin_def split: outcome.splits option.splits)
  have user: "joinUser env arg s = Returns (socket_disconnect s)"
    if "read_prop arg ''token'' = Returns tok" and "\<not> user_verified env tok"
    using that
    by (simp add: user_verified_def joinUser_def split: outcome.splits option.splits)
  show ?thesis
    using admin user by (simp add: socket_disconnect_def)
qed

text \<open>
  A customer's session in \<open>user_b\<close> that asks to join as admin with its own (valid, but not
  admin) credential, or to join as user with an expired token, ends disconnected and in no
  room.
\<close>

theorem failed_verification_disconnects_witness:
  "\<not> admin_verified example_env (JString ''Bearer tb'')
   \<and> connected (joinAdmin example_env (JString ''Bearer tb'')
        \<lparr>sock_id = ''s2'', connected = True, rooms = {''user_b''}\<rparr>) = False
   \<and> rooms (joinAdmin example_env (JString ''Bearer tb'')
        \<lparr>sock_id = ''s2'', connected = True, rooms = {''user_b''}\<rparr>) = {}
   \<and> read_prop (JObject [(''token'', JString ''expired'')]) ''token'' = Returns (JString ''expired'')
   \<and> \<not> user_verified example_env (JString ''expired'')
   \<and> (\<exists>s'. joinUser example_env (JObject [(''token'', JString ''expired'')])
          \<lparr>sock_id = ''s2'', connected = True, rooms = {''user_b''}\<rparr> = Returns s'
        \<and> connected s' = False \<and> rooms s' = {})"
proof -
  have 1: "\<not> admin_verified example_env (JString ''Bearer tb'')"
    by (simp add: admin_verified_def authenticate_def example_env_def)
  have 2: "read_prop (JObject [(''token'', JString ''expired'')]) ''token'' =
             Returns (JString ''expired'')"
    by simp
  have 3: "\<not> user_verified example_env (JString ''expired'')"
    by (simp add: user_verified_def authenticate_def example_env_def)
  show ?thesis
    using 1 2 3
      failed_verification_disconnects [of example_env "JString ''Bearer tb''"
        "\<lparr>sock_id = ''s2'', connected = True, rooms = {''user_b''}\<rparr>"
        "JObject [(''token'', JString ''expired'')]" "JString ''expired''"]
    by blast
qed

text \<open>
  Claim C4. A session whose credential fails verification in \<open>joinAdmin\<close> or \<open>joinUser\<close>
  is to end disconnected and in no room. The program departs from this for a \<open>joinUser\<close>
  message without an argument, or with null: line 116 destructures the argument before the
  \<open>try\<close> of line 117 is entered, so the TypeError is caught by nothing and
  \<open>socket.disconnect()\<close> is never called, while \<open>joinAdmin\<close>, given the same value, fails
  inside its \<open>try\<close> and disconnects. The session \<open>s2\<close>, in \<open>user_b\<close>, sends such a message:
  the handler throws, and where the server survives the unhandled rejection the session is
  still connected and still in \<open>user_b\<close>.
\<close>

theorem joinUser_without_argument:
  "joinUser example_env JNull \<lparr>sock_id = ''s2'', connected = True, rooms = {''user_b''}\<rparr> = Throws
   \<and> joinUser example_env JUndefined \<lparr>sock_id = ''s2'', connected = True, rooms = {''user_b''}\<rparr>
       = Throws
   \<and> joinAdmin example_env JNull \<lparr>sock_id = ''s2'', connected = True, rooms = {''user_b''}\<rparr> =
       \<lparr>sock_id = ''s2'', connected = False, rooms = {}\<rparr>
   \<and> io_sockets (on_event example_env ''s2'' (JoinUser JNull) example_server) = example_sockets
   \<and> \<lparr>sock_id = ''s2'', connected = True, rooms = {''user_b''}\<rparr> \<in> set example_sockets"
  by (simp add: joinUser_def joinAdmin_def authenticate_def socket_disconnect_def on_event_def
      is_connected_def example_server_def example_sockets_def)

text \<open>
  Claim C7. An \<open>orderStatusUpdate\<close> message whose argument fails the test of line 144 - it
  is not an object, or has no truthy \<open>_id\<close> - emits nothing, and leaves the sockets, their
  rooms and everything emitted so far as they were.
\<close>

theorem invalid_order_dropped:
  assumes "invalid_order order"
  shows "orderStatusUpdate env socks order = []
       \<and> on_event env sid (OrderStatusUpdate order) srv = srv"
proof -
  have e: "orderStatusUpdate env socks' order = []" for socks'
    using assms by (simp add: orderStatusUpdate_def)
  have "map (\<lambda>s. if sock_id s = sid then socket_step env s (OrderStatusUpdate order) else s)
          (io_sockets srv) = io_sockets srv"
    by (simp add: map_idI)
  then have "on_event env sid (OrderStatusUpdate order) srv = srv"
    by (simp add: on_event_def e)
  with e show ?thesis by simp
qed

text \<open>An order without \<open>_id\<close>, sent by the admin's socket.\<close>

theorem invalid_order_dropped_witness:
  "invalid_order (JObject [(''status'', JString ''paid'')])
   \<and> orderStatusUpdate example_env example_sockets (JObject [(''status'', JString ''paid'')]) = []
   \<and> on_event example_env ''s1'' (OrderStatusUpdate (JObject [(''status'', JString ''paid'')]))
        example_server = example_server"
proof -
  have i: "invalid_order (JObject [(''status'', JString ''paid'')])"
    by (simp add: invalid_order_def)
  from i invalid_order_dropped [OF i, of example_env example_sockets "''s1''" example_server]
  show ?thesis by simp
qed

lemma example_connected: "is_connected example_server ''s1''"
  by (simp add: is_connected_def example_server_def example_sockets_def)

lemma example_admins:
  "io_to_emit example_sockets ''adminRoom'' ev pl =
     \<lparr>em_room = ''adminRoom'', em_event = ev, em_payload = pl, em_receivers = [''s1'', ''s5'']\<rparr>"
  by (simp add: io_to_emit_def example_sockets_def)

lemma example_user_b:
  "io_to_emit example_sockets ''user_b'' ev pl =
     \<lparr>em_room = ''user_b'', em_event = ev, em_payload = pl, em_receivers = [''s2'']\<rparr>"
  by (simp add: io_to_emit_def example_sockets_def)

lemma example_user_u9:
  "io_to_emit example_sockets ''user_u9'' ev pl =
     \<lparr>em_room = ''user_u9'', em_event = ev, em_payload = pl, em_receivers = [''s5'']\<rparr>"
  by (simp add: io_to_emit_def example_sockets_def)

text \<open>
  Claim C3, as the program has it. The claim says that every event with a valid order id
  is broadcast to \<open>adminRoom\<close>. For a message from a connected socket whose order is an
  object with a truthy \<open>_id\<close>, the program first settles what to send: the order of the
  message when it names a user with an id, otherwise the record that the lookup by the
  order's \<open>_id\<close> returns, and nothing when that lookup returns nothing or fails. What it
  has settled on it emits to \<open>adminRoom\<close>, whether or not it names a user, and then to
  \<open>user_<id>\<close> exactly when it names a user with an id. It emits nothing else, nothing at
  all when there is nothing to send, and leaves every socket and room as it was.
\<close>

theorem order_broadcast:
  assumes "is_connected srv sid"
    and "order = JObject fs" and "truthy (get_prop order ''_id'')"
  shows "io_sockets (on_event env sid (OrderStatusUpdate order) srv) = io_sockets srv
       \<and> (\<exists>sent.
            sent =
              (if truthy (get_prop order ''user'')
                  \<and> truthy (get_prop (get_prop order ''user'') ''_id'')
               then Some order
               else case Order_findById env (get_prop order ''_id'') of
                      Throws \<Rightarrow> None
                    | Returns found \<Rightarrow> if truthy found then Some found else None)
            \<and> io_outbox (on_event env sid (OrderStatusUpdate order) srv) =
                io_outbox srv @
                (case sent of
                   None \<Rightarrow> []
                 | Some p \<Rightarrow>
                     io_to_emit (io_sockets srv) ''adminRoom'' ''orderStatusUpdate'' (Some p) #
                     (if truthy (get_prop p ''user'')
                         \<and> truthy (get_prop (get_prop p ''user'') ''_id'')
                      then [io_to_emit (io_sockets srv)
                              (''user_'' @
                                 template_string env (get_prop (get_prop p ''user'') ''_id''))
                              ''orderStatusUpdate'' (Some p)]
                      else [])))"
proof -
  have valid: "\<not> invalid_order order"
    using assms(2,3) by (simp add: invalid_order_iff)
  have kept: "map (\<lambda>s. if sock_id s = sid then socket_step env s (OrderStatusUpdate order) else s)
                (io_sockets srv) = io_sockets srv"
    by (simp add: map_idI)
  have socks: "io_sockets (on_event env sid (OrderStatusUpdate order) srv) = io_sockets srv"
    using assms(1) kept by (simp add: on_event_def)
  have out: "io_outbox (on_event env sid (OrderStatusUpdate order) srv) =
               io_outbox srv @ orderStatusUpdate env (io_sockets srv) order"
    using assms(1) by (simp add: on_event_def)
  show ?thesis
    unfolding out
    using socks valid
    by (simp add: orderStatusUpdate_def populatedOrder_def has_user_id_def
        split: outcome.splits)
qed

text \<open>
  Five messages from the socket \<open>s1\<close>. The order \<open>o1\<close> naming user \<open>u9\<close> goes, as sent, to
  the sockets in \<open>adminRoom\<close> (\<open>s1\<close> and \<open>s5\<close>) and to the socket in \<open>user_u9\<close> (\<open>s5\<close>); the
  socket in \<open>user_u8\<close> gets nothing. The order \<open>o2\<close>, sent with its user as a bare id, is
  looked up, and the stored record goes to \<open>adminRoom\<close> and to \<open>user_b\<close>. The order \<open>o4\<close>,
  whose stored record names no user, goes to \<open>adminRoom\<close> only. The orders \<open>o1\<close> (not
  stored) and \<open>o3\<close> (lookup fails), sent without a user, go to nobody.
\<close>

theorem order_broadcast_witness:
  "is_connected example_server ''s1''
   \<and> truthy (get_prop order_u9 ''_id'')
   \<and> io_outbox (on_event example_env ''s1'' (OrderStatusUpdate order_u9) example_server) =
       [\<lparr>em_room = ''adminRoom'', em_event = ''orderStatusUpdate'',
         em_payload = Some order_u9, em_receivers = [''s1'', ''s5'']\<rparr>,
        \<lparr>em_room = ''user_u9'', em_event = ''orderStatusUpdate'',
         em_payload = Some order_u9, em_receivers = [''s5'']\<rparr>]
   \<and> truthy (get_prop sent_o2 ''_id'')
   \<and> io_outbox (on_event example_env ''s1'' (OrderStatusUpdate sent_o2) example_server) =
       [\<lparr>em_room = ''adminRoom'', em_event = ''orderStatusUpdate'',
         em_payload = Some stored_o2, em_receivers = [''s1'', ''s5'']\<rparr>,
        \<lparr>em_room = ''user_b'', em_event = ''orderStatusUpdate'',
         em_payload = Some stored_o2, em_receivers = [''s2'']\<rparr>]
   \<and> io_outbox (on_event example_env ''s1''
         (OrderStatusUpdate (JObject [(''_id'', JString ''o4'')])) example_server) =
       [\<lparr>em_room = ''adminRoom'', em_event = ''orderStatusUpdate'',
         em_payload = Some stored_o4, em_receivers = [''s1'', ''s5'']\<rparr>]
   \<and> io_outbox (on_event example_env ''s1''
         (OrderStatusUpdate (JObject [(''_id'', JString ''o1'')])) example_server) = []
   \<and> io_outbox (on_event example_env ''s1''
         (OrderStatusUpdate (JObject [(''_id'', JString ''o3'')])) example_server) = []"
proof -
  note c = example_connected
  have srv: "io_sockets example_server = example_sockets" "io_outbox example_server = []"
    by (simp_all add: example_server_def)
  have u9: "truthy (get_prop order_u9 ''_id'')"
    by (simp add: order_u9_def)
  have o2: "truthy (get_prop sent_o2 ''_id'')"
    by (simp add: sent_o2_def)
  have 1: "io_outbox (on_event example_env ''s1'' (OrderStatusUpdate order_u9) example_server) =
       [\<lparr>em_room = ''adminRoom'', em_event = ''orderStatusUpdate'',
         em_payload = Some order_u9, em_receivers = [''s1'', ''s5'']\<rparr>,
        \<lparr>em_room = ''user_u9'', em_event = ''orderStatusUpdate'',
         em_payload = Some order_u9, em_receivers = [''s5'']\<rparr>]"
    using order_broadcast [OF c order_u9_def u9, of example_env]
    by (simp add: srv example_admins example_user_u9 order_u9_def)
  have 2: "io_outbox (on_event example_env ''s1'' (OrderStatusUpdate sent_o2) example_server) =
       [\<lparr>em_room = ''adminRoom'', em_event = ''orderStatusUpdate'',
         em_payload = Some stored_o2, em_receivers = [''s1'', ''s5'']\<rparr>,
        \<lparr>em_room = ''user_b'', em_event = ''orderStatusUpdate'',
         em_payload = Some stored_o2, em_receivers = [''s2'']\<rparr>]"
    using order_broadcast [OF c sent_o2_def o2, of example_env]
    by (simp add: srv example_admins example_user_b sent_o2_def example_env_def stored_o2_def)
  have 3: "io_outbox (on_event example_env ''s1''
         (OrderStatusUpdate (JObject [(''_id'', JString ''o4'')])) example_server) =
       [\<lparr>em_room = ''adminRoom'', em_event = ''orderStatusUpdate'',
         em_payload = Some stored_o4, em_receivers = [''s1'', ''s5'']\<rparr>]"
    using order_broadcast [OF c refl, of "[(''_id'', JString ''o4'')]" example_env]
    by (simp add: srv example_admins example_env_def stored_o4_def)
  have 4: "io_outbox (on_event example_env ''s1''
         (OrderStatusUpdate (JObject [(''_id'', JString ''o1'')])) example_server) = []"
    using order_broadcast [OF c refl, of "[(''_id'', JString ''o1'')]" example_env]
    by (simp add: srv example_env_def)
  have 5: "io_outbox (on_event example_env ''s1''
         (OrderStatusUpdate (JObject [(''_id'', JString ''o3'')])) example_server) = []"
    using order_broadcast [OF c refl, of "[(''_id'', JString ''o3'')]" example_env]
    by (simp add: srv example_env_def)
  from c u9 o2 1 2 3 4 5 show ?thesis by simp
qed


text \<open>
  The claim C3 as it is written fails: an order with the id \<open>o1\<close> and no user, which the
  database does not hold, passes the test of line 144 and is broadcast to nobody, not even
  to \<open>adminRoom\<close>; so is the order \<open>o3\<close>, whose lookup fails.
\<close>

theorem order_not_found_dropped:
  "\<not> invalid_order (JObject [(''_id'', JString ''o1'')])
   \<and> orderStatusUpdate example_env example_sockets (JObject [(''_id'', JString ''o1'')]) = []
   \<and> \<not> invalid_order (JObject [(''_id'', JString ''o3'')])
   \<and> orderStatusUpdate example_env example_sockets (JObject [(''_id'', JString ''o3'')]) = []"
  by (simp add: invalid_order_def orderStatusUpdate_def populatedOrder_def has_user_id_def
      example_env_def)

lemma example_admin_ids:
  "sock_id ` {s \<in> set example_sockets. ''adminRoom'' \<in> rooms s} = {''s1'', ''s5''}"
proof -
  have "{s \<in> set example_sockets. ''adminRoom'' \<in> rooms s} =
          set (filter (\<lambda>s. ''adminRoom'' \<in> rooms s) example_sockets)"
    by simp
  also have "filter (\<lambda>s. ''adminRoom'' \<in> rooms s) example_sockets =
          [\<lparr>sock_id = ''s1'', connected = True, rooms = {''adminRoom''}\<rparr>,
           \<lparr>sock_id = ''s5'', connected = True, rooms = {''user_u9'', ''adminRoom''}\<rparr>]"
    by (simp add: example_sockets_def)
  finally show ?thesis by simp
qed

text \<open>
  Claim C8. A \<open>productUpdate\<close> signal that arrives from any connected client makes the
  server emit exactly one event, to \<open>adminRoom\<close>, named \<open>productUpdate\<close> and without
  payload, and the sockets that receive it are exactly those in \<open>adminRoom\<close>; likewise for
  \<open>categoryUpdate\<close>.
\<close>

theorem catalog_signal_receivers:
  assumes "is_connected srv sid"
  shows "(\<exists>e. io_outbox (on_event env sid ProductUpdate srv) = io_outbox srv @ [e]
            \<and> em_room e = ''adminRoom'' \<and> em_event e = ''productUpdate'' \<and> em_payload e = None
            \<and> set (em_receivers e) =
                sock_id ` {s \<in> set (io_sockets srv). ''adminRoom'' \<in> rooms s})
       \<and> (\<exists>e. io_outbox (on_event env sid CategoryUpdate srv) = io_outbox srv @ [e]
            \<and> em_room e = ''adminRoom'' \<and> em_event e = ''categoryUpdate'' \<and> em_payload e = None
            \<and> set (em_receivers e) =
                sock_id ` {s \<in> set (io_sockets srv). ''adminRoom'' \<in> rooms s})"
proof -
  have out: "io_outbox (on_event env sid ev srv) = io_outbox srv @ emissions env (io_sockets srv) ev"
    for ev
    using assms by (simp add: on_event_def)
  have recv: "set (em_receivers (io_to_emit (io_sockets srv) ''adminRoom'' ev pl)) =
                sock_id ` {s \<in> set (io_sockets srv). ''adminRoom'' \<in> rooms s}" for ev pl
    by (simp add: io_to_emit_def)
  have p: "\<exists>e. io_outbox (on_event env sid ProductUpdate srv) = io_outbox srv @ [e]
            \<and> em_room e = ''adminRoom'' \<and> em_event e = ''productUpdate'' \<and> em_payload e = None
            \<and> set (em_receivers e) =
                sock_id ` {s \<in> set (io_sockets srv). ''adminRoom'' \<in> rooms s}"
  proof (intro exI conjI)
    show "io_outbox (on_event env sid ProductUpdate srv) =
            io_outbox srv @ [io_to_emit (io_sockets srv) ''adminRoom'' ''productUpdate'' None]"
      by (simp add: out productUpdate_def)
  qed (simp_all add: recv, simp_all add: io_to_emit_def)
  have c: "\<exists>e. io_outbox (on_event env sid CategoryUpdate srv) = io_outbox srv @ [e]
            \<and> em_room e = ''adminRoom'' \<and> em_event e = ''categoryUpdate'' \<and> em_payload e = None
            \<and> set (em_receivers e) =
                sock_id ` {s \<in> set (io_sockets srv). ''adminRoom'' \<in> rooms s}"
  proof (intro exI conjI)
    show "io_outbox (on_event env sid CategoryUpdate srv) =
            io_outbox srv @ [io_to_emit (io_sockets srv) ''adminRoom'' ''categoryUpdate'' None]"
      by (simp add: out categoryUpdate_def)
  qed (simp_all add: recv, simp_all add: io_to_emit_def)
  from p c show ?thesis by (rule conjI)
qed

text \<open>
  The signal of the customer's socket \<open>s2\<close> reaches the sockets \<open>s1\<close> and \<open>s5\<close>, which are
  in \<open>adminRoom\<close>, and no other.
\<close>

theorem catalog_signal_receivers_witness:
  "is_connected example_server ''s2''
   \<and> (\<exists>e. io_outbox (on_event example_env ''s2'' ProductUpdate example_server) = [e]
         \<and> em_room e = ''adminRoom'' \<and> em_event e = ''productUpdate'' \<and> em_payload e = None
         \<and> set (em_receivers e) = {''s1'', ''s5''})
   \<and> (\<exists>e. io_outbox (on_event example_env ''s2'' CategoryUpdate example_server) = [e]
         \<and> em_room e = ''adminRoom'' \<and> em_event e = ''categoryUpdate'' \<and> em_payload e = None
         \<and> set (em_receivers e) = {''s1'', ''s5''})"
proof -
  have c: "is_connected example_server ''s2''"
    by (simp add: is_connected_def example_server_def example_sockets_def)
  have s: "io_sockets example_server = example_sockets"
    and o: "io_outbox example_server = []"
    by (simp_all add: example_server_def)
  from catalog_signal_receivers [OF c, of example_env]
  have "(\<exists>e. io_outbox (on_event example_env ''s2'' ProductUpdate example_server) = [e]
         \<and> em_room e = ''adminRoom'' \<and> em_event e = ''productUpdate'' \<and> em_payload e = None
         \<and> set (em_receivers e) = {''s1'', ''s5''})
   \<and> (\<exists>e. io_outbox (on_event example_env ''s2'' CategoryUpdate example_server) = [e]
         \<and> em_room e = ''adminRoom'' \<and> em_event e = ''categoryUpdate'' \<and> em_payload e = None
         \<and> set (em_receivers e) = {''s1'', ''s5''})"
    unfolding s o example_admin_ids append_Nil .
  with c show ?thesis by (rule conjI)
qed


text \<open>
  Claim C9. The two rebroadcast handlers check nothing about the sender: a signal from any
  connected socket, whatever rooms it is in - none, for a session that never
  authenticated - is emitted to \<open>adminRoom\<close>, and changes nothing else.
\<close>

theorem rebroadcast_unchecked:
  assumes "is_connected srv sid"
  shows "on_event env sid ProductUpdate srv =
           srv\<lparr>io_outbox := io_outbox srv @
                 [io_to_emit (io_sockets srv) ''adminRoom'' ''productUpdate'' None]\<rparr>
       \<and> on_event env sid CategoryUpdate srv =
           srv\<lparr>io_outbox := io_outbox srv @
                 [io_to_emit (io_sockets srv) ''adminRoom'' ''categoryUpdate'' None]\<rparr>"
proof -
  have "map (\<lambda>s. if sock_id s = sid then socket_step env s ev else s) (io_sockets srv) =
          io_sockets srv"
    if "ev = ProductUpdate \<or> ev = CategoryUpdate" for ev
    using that by (auto intro: map_idI)
  with assms show ?thesis
    by (simp add: on_event_def productUpdate_def categoryUpdate_def)
qed

text \<open>The socket \<open>s4\<close> is in no room; its signal reaches the two admins.\<close>

theorem rebroadcast_unchecked_witness:
  "is_connected example_server ''s4''
   \<and> io_outbox (on_event example_env ''s4'' ProductUpdate example_server) =
       [\<lparr>em_room = ''adminRoom'', em_event = ''productUpdate'', em_payload = None,
         em_receivers = [''s1'', ''s5'']\<rparr>]
   \<and> io_outbox (on_event example_env ''s4'' CategoryUpdate example_server) =
       [\<lparr>em_room = ''adminRoom'', em_event = ''categoryUpdate'', em_payload = None,
         em_receivers = [''s1'', ''s5'']\<rparr>]"
proof -
  have c: "is_connected example_server ''s4''"
    by (simp add: is_connected_def example_server_def example_sockets_def)
  from c rebroadcast_unchecked [OF c, of example_env]
  show ?thesis
    by (simp add: io_to_emit_def example_server_def example_sockets_def)
qed

end
